theory Spec2Isabelle
  imports Main
begin

section \<open>Values and collaborator types\<close>

text \<open>
  The type parameters of the library are type variables of HOL. Where the library works on
  values of mixed types at once (the fields of a struct, the positions of a tuple: TypeScript's
  \<open>any\<close>), the values are the primitive values of JavaScript. Numbers are the integers
  (exact in JavaScript below \<open>2 ^ 53\<close>).
\<close>

datatype jsval = Undefined | Bool bool | Num int | Str string

text \<open>
  An object is a plain object (its prototype is \<open>Object.prototype\<close>), given by its own
  enumerable properties.
\<close>

type_synonym jsobject = "string \<rightharpoonup> jsval"

text \<open>The names of the properties of \<open>Object.prototype\<close>, which every plain object inherits.\<close>

definition Object_prototype_keys :: "string list" where
  "Object_prototype_keys =
     [''constructor'', ''__defineGetter__'', ''__defineSetter__'', ''hasOwnProperty'',
      ''__lookupGetter__'', ''__lookupSetter__'', ''isPrototypeOf'', ''propertyIsEnumerable'',
      ''toString'', ''valueOf'', ''__proto__'', ''toLocaleString'']"

text \<open>
  \<open>obj[k]\<close>: the value of the own property. For a key that the object does not own the read
  goes to \<open>Object.prototype\<close>: it gives \<open>undefined\<close> when \<open>Object.prototype\<close> has no such
  property, and otherwise the inherited member, a function or an object and so no value of
  \<open>jsval\<close>: the result \<open>None\<close> says that the read leaves the values of the model.
\<close>

definition get_prop :: "jsobject \<Rightarrow> string \<Rightarrow> jsval option" where
  "get_prop obj k =
     (case obj k of
        Some v \<Rightarrow> Some v
      | None \<Rightarrow> if k \<in> set Object_prototype_keys then None else Some Undefined)"

text \<open>
  \<open>r[k] = v\<close> on an object made by \<open>{}\<close>: the assignment makes (or overwrites) the own
  property \<open>k\<close>, except for the key \<open>__proto__\<close>, where it runs the setter that
  \<open>Object.prototype\<close> has for it: no own property is made, and for a value that is not an
  object (every value of \<open>jsval\<close>) nothing else changes either.
\<close>

definition set_prop :: "jsobject \<Rightarrow> string \<Rightarrow> jsval \<Rightarrow> jsobject" where
  "set_prop r k v = (if k = ''__proto__'' then r else r(k \<mapsto> v))"

text \<open>\<open>arr[i]\<close>: the element, \<open>undefined\<close> when the index is beyond the end.\<close>

definition get_index :: "jsval list \<Rightarrow> nat \<Rightarrow> jsval" where
  "get_index arr i = (if i < length arr then arr ! i else Undefined)"

text \<open>
  Modelled from the spec: the interface \<open>Order<A>\<close> of typeclass/Order (not among the
  sources), a record with the comparator \<open>compare: (that: A) => (self: A) => -1 | 0 | 1\<close>.
\<close>

record 'a Order =
  compare :: "'a \<Rightarrow> 'a \<Rightarrow> int"

section \<open>typeclass/Semigroup\<close>

record 'a Semigroup =
  combine :: "'a \<Rightarrow> 'a \<Rightarrow> 'a"
  combineMany :: "'a list \<Rightarrow> 'a \<Rightarrow> 'a"

text \<open>
  The loop of \<open>fromCombine\<close>: \<open>let out = self; for (const a of collection) out = combine(a)(out)\<close>.
\<close>

fun fromCombine_loop :: "('a \<Rightarrow> 'a \<Rightarrow> 'a) \<Rightarrow> 'a list \<Rightarrow> 'a \<Rightarrow> 'a" where
  "fromCombine_loop c [] out = out"
| "fromCombine_loop c (a # collection) out = fromCombine_loop c collection (c a out)"

definition fromCombine :: "('a \<Rightarrow> 'a \<Rightarrow> 'a) \<Rightarrow> 'a Semigroup" where
  "fromCombine c = \<lparr> combine = c, combineMany = (\<lambda>collection self. fromCombine_loop c collection self) \<rparr>"

definition min_Semigroup :: "'a Order \<Rightarrow> 'a Semigroup" where
  "min_Semigroup O' = fromCombine (\<lambda>that self. if compare O' that self = -1 then self else that)"

definition max_Semigroup :: "'a Order \<Rightarrow> 'a Semigroup" where
  "max_Semigroup O' = fromCombine (\<lambda>that self. if compare O' that self = 1 then self else that)"

definition constant_Semigroup :: "'a \<Rightarrow> 'a Semigroup" where
  "constant_Semigroup a = \<lparr> combine = (\<lambda>_ _. a), combineMany = (\<lambda>_ _. a) \<rparr>"

definition reverse :: "'a Semigroup \<Rightarrow> 'a Semigroup" where
  "reverse S =
     \<lparr> combine = (\<lambda>that self. combine S self that),
       combineMany = (\<lambda>collection self.
         let reversed = rev collection in
         if length reversed > 0
         then combine S self (combineMany S (drop 1 reversed) (reversed ! 0))
         else self) \<rparr>"

text \<open>
  The loop of \<open>struct\<close>. \<open>semigroups\<close> is the object of the component semigroups, given by
  its own properties in their order; \<open>ks\<close> are the keys that \<open>for (const k in semigroups)\<close>
  still has to visit. The test \<open>hasOwnProperty.call(semigroups, k)\<close> is the lookup of
  \<open>k\<close> among the own properties. The result is \<open>None\<close> when a read of \<open>that[k]\<close> or
  \<open>self[k]\<close> leaves the values of the model.
\<close>

fun struct_loop ::
  "(string \<times> jsval Semigroup) list \<Rightarrow> string list \<Rightarrow> jsobject \<Rightarrow> jsobject \<Rightarrow> jsobject
     \<Rightarrow> jsobject option"
where
  "struct_loop semigroups [] that self r = Some r"
| "struct_loop semigroups (k # ks) that self r =
     (case map_of semigroups k of
        None \<Rightarrow> struct_loop semigroups ks that self r
      | Some S \<Rightarrow>
          (case (get_prop that k, get_prop self k) of
             (Some b, Some a) \<Rightarrow> struct_loop semigroups ks that self (set_prop r k (combine S b a))
           | _ \<Rightarrow> None))"

text \<open>
  The values that \<open>struct\<close> combines are \<open>Some\<close> object; \<open>None\<close> stands for a value that the
  model does not follow (the result of reading an inherited member, see \<open>get_prop\<close>).
\<close>

definition struct :: "(string \<times> jsval Semigroup) list \<Rightarrow> jsobject option Semigroup" where
  "struct semigroups =
     fromCombine (\<lambda>that self.
       case (that, self) of
         (Some that', Some self') \<Rightarrow>
           struct_loop semigroups (map fst semigroups) that' self' Map.empty
       | _ \<Rightarrow> None)"

text \<open>
  A value of the struct type that \<open>semigroups\<close> describes: an object that owns every key
  of \<open>semigroups\<close>.
\<close>

definition has_fields :: "(string \<times> jsval Semigroup) list \<Rightarrow> jsobject \<Rightarrow> bool" where
  "has_fields semigroups obj = list_all (\<lambda>k. obj k \<noteq> None) (map fst semigroups)"

text \<open>\<open>semigroups.map((S, i) => S.combine(that[i])(self[i]))\<close>\<close>

definition tuple :: "jsval Semigroup list \<Rightarrow> jsval list Semigroup" where
  "tuple semigroups =
     fromCombine (\<lambda>that self.
       map (\<lambda>(i, S). combine S (get_index that i) (get_index self i)) (enumerate 0 semigroups))"

definition intercalate :: "'a \<Rightarrow> 'a Semigroup \<Rightarrow> 'a Semigroup" where
  "intercalate separator S = fromCombine (\<lambda>that. combineMany S [separator, that])"

definition first :: "'a Semigroup" where
  "first = \<lparr> combine = (\<lambda>_. id), combineMany = (\<lambda>_. id) \<rparr>"

text \<open>The loop of \<open>last\<close>: \<open>let a = self; for (a of collection) {}; return a\<close>.\<close>

fun last_loop :: "'a list \<Rightarrow> 'a \<Rightarrow> 'a" where
  "last_loop [] a = a"
| "last_loop (x # collection) a = last_loop collection x"

definition last_Semigroup :: "'a Semigroup" where
  "last_Semigroup = \<lparr> combine = (\<lambda>second _. second), combineMany = (\<lambda>collection self. last_loop collection self) \<rparr>"

text \<open>
  \<open>imap\<close> calls \<open>from\<close> in two ways: \<open>from(that)\<close> with one argument, and through
  \<open>collection.map(from)\<close>, where \<open>Array.prototype.map\<close> calls it with the element, its
  index and the array. A JavaScript function may read the further arguments, so \<open>from\<close>
  takes them too: \<open>None\<close> when it is called with one argument, the index and the array
  when \<open>map\<close> calls it.
\<close>

definition imap_Semigroup ::
  "('a \<Rightarrow> 'b) \<Rightarrow> ('b \<Rightarrow> (nat \<times> 'b list) option \<Rightarrow> 'a) \<Rightarrow> 'a Semigroup \<Rightarrow> 'b Semigroup"
where
  "imap_Semigroup to from S =
     \<lparr> combine = (\<lambda>that self. to (combine S (from that None) (from self None))),
       combineMany = (\<lambda>collection self.
         to (combineMany S
               (map (\<lambda>(i, b). from b (Some (i, collection))) (enumerate 0 collection))
               (from self None))) \<rparr>"

text \<open>
  The instances \<open>SemiProduct\<close> and \<open>Product\<close> of the module: \<open>product\<close> is
  \<open>tuple(self, that)\<close>, \<open>productMany\<close> is \<open>tuple(self, ...collection)\<close>, \<open>of\<close> is
  \<open>constant\<close>, and \<open>productAll\<close> spreads the collection into \<open>tuple\<close>.
\<close>

definition product_Semigroup :: "jsval Semigroup \<Rightarrow> jsval Semigroup \<Rightarrow> jsval list Semigroup" where
  "product_Semigroup that self = tuple [self, that]"

definition productMany_Semigroup :: "jsval Semigroup list \<Rightarrow> jsval Semigroup \<Rightarrow> jsval list Semigroup" where
  "productMany_Semigroup collection self = tuple (self # collection)"

definition of_Semigroup :: "'a \<Rightarrow> 'a Semigroup" where
  "of_Semigroup = constant_Semigroup"

definition productAll_Semigroup :: "jsval Semigroup list \<Rightarrow> jsval list Semigroup" where
  "productAll_Semigroup collection = tuple collection"

section \<open>typeclass/Covariant\<close>

text \<open>
  JavaScript applies the one function \<open>map\<close> of an instance at every type. A type
  constructor \<open>F\<close> cannot be a parameter in HOL, so an instance is taken over a universe
  \<open>'u\<close> of values that holds the \<open>A\<close>, \<open>F<A>\<close> and \<open>F<G<A>>\<close> alike.
\<close>

record 'u Covariant =
  map_Covariant :: "('u \<Rightarrow> 'u) \<Rightarrow> 'u \<Rightarrow> 'u"
  imap_Covariant :: "('u \<Rightarrow> 'u) \<Rightarrow> ('u \<Rightarrow> 'u) \<Rightarrow> 'u \<Rightarrow> 'u"

definition mapComposition :: "'u Covariant \<Rightarrow> 'u Covariant \<Rightarrow> ('u \<Rightarrow> 'u) \<Rightarrow> 'u \<Rightarrow> 'u" where
  "mapComposition F G = (\<lambda>f. map_Covariant F (map_Covariant G f))"

definition imap :: "(('u \<Rightarrow> 'u) \<Rightarrow> 'u \<Rightarrow> 'u) \<Rightarrow> ('u \<Rightarrow> 'u) \<Rightarrow> ('u \<Rightarrow> 'u) \<Rightarrow> 'u \<Rightarrow> 'u" where
  "imap m = (\<lambda>to _. m to)"

definition make :: "(('u \<Rightarrow> 'u) \<Rightarrow> 'u \<Rightarrow> 'u) \<Rightarrow> 'u Covariant" where
  "make m = \<lparr> map_Covariant = m, imap_Covariant = imap m \<rparr>"

section \<open>test/data/Predicate\<close>

type_synonym 'a Predicate = "'a \<Rightarrow> bool"

definition of_Predicate :: "'a \<Rightarrow> 'a Predicate" where
  "of_Predicate _ = (\<lambda>_. True)"

text \<open>
  The loop of \<open>productAll\<close>, from index \<open>i\<close> on: the first predicate that is false on its
  position decides.
\<close>

fun productAll_loop :: "jsval Predicate list \<Rightarrow> jsval list \<Rightarrow> nat \<Rightarrow> bool" where
  "productAll_loop [] as i = True"
| "productAll_loop (p # predicates) as i =
     (if p (get_index as i) = False then False else productAll_loop predicates as (Suc i))"

definition productAll_Predicate :: "jsval Predicate list \<Rightarrow> jsval list Predicate" where
  "productAll_Predicate collection = (\<lambda>as. productAll_loop collection as 0)"

section \<open>Laws and test fixtures\<close>

text \<open>
  The left fold that the spec compares \<open>combineMany\<close> with:
  \<open>xs.reduce((out, a) => combine(a)(out), s)\<close>, the fold in \<open>combine\<close>'s argument order.
\<close>

definition leftFold :: "('a \<Rightarrow> 'a \<Rightarrow> 'a) \<Rightarrow> 'a list \<Rightarrow> 'a \<Rightarrow> 'a" where
  "leftFold c xs s = foldl (\<lambda>out a. c a out) s xs"

text \<open>Associativity as the spec writes it: \<open>combine(combine(a)(b))(c) == combine(a)(combine(b)(c))\<close>.\<close>

definition associative :: "('a \<Rightarrow> 'a \<Rightarrow> 'a) \<Rightarrow> bool" where
  "associative c = (\<forall>x y z. c (c x y) z = c x (c y z))"

text \<open>The second invariant of a \<open>Semigroup\<close> in the spec: \<open>combineMany\<close> is the left fold of \<open>combine\<close>.\<close>

definition coherent :: "'a Semigroup \<Rightarrow> bool" where
  "coherent S = (\<forall>xs s. combineMany S xs s = leftFold (combine S) xs s)"

text \<open>
  The laws of an \<open>Order\<close> that the spec names: the outcome is one of \<open>-1\<close>, \<open>0\<close>, \<open>1\<close>,
  \<open>compare(a)(b) == -compare(b)(a)\<close>, and transitivity. That a tie only joins equal values
  is not asked, so an order by a key (as the tests build with \<open>contramap\<close>) is lawful too.
\<close>

definition lawful_Order :: "'a Order \<Rightarrow> bool" where
  "lawful_Order O' =
     ((\<forall>a b. compare O' a b = -1 \<or> compare O' a b = 0 \<or> compare O' a b = 1)
      \<and> (\<forall>a b. compare O' a b = - compare O' b a)
      \<and> (\<forall>a b c. compare O' b a \<le> 0 \<and> compare O' c b \<le> 0 \<longrightarrow> compare O' c a \<le> 0))"

text \<open>
  The record that the spec describes for \<open>struct\<close>: at each key \<open>k\<close> of \<open>semigroups\<close> the
  value \<open>semigroups[k].combine(that[k])(self[k])\<close>, and no other key.
\<close>

definition fieldwise :: "(string \<times> jsval Semigroup) list \<Rightarrow> jsobject \<Rightarrow> jsobject \<Rightarrow> jsobject" where
  "fieldwise semigroups that self =
     (\<lambda>k. case (map_of semigroups k, that k, self k) of
             (Some S, Some b, Some a) \<Rightarrow> Some (combine S b a)
           | _ \<Rightarrow> None)"

text \<open>The functor laws of the spec, for a \<open>map\<close>: identity and composition.\<close>

definition functor_laws :: "(('u \<Rightarrow> 'u) \<Rightarrow> 'u \<Rightarrow> 'u) \<Rightarrow> bool" where
  "functor_laws m = ((\<forall>x. m id x = x) \<and> (\<forall>f g x. m (g \<circ> f) x = m g (m f x)))"

text \<open>
  Modelled from the spec: \<open>number.Order\<close> of the test fixtures (test/data/number is not
  among the sources): \<open>compare(that)(self)\<close> is \<open>-1\<close> when \<open>self < that\<close>, \<open>1\<close> when
  \<open>self > that\<close> and \<open>0\<close> otherwise, as the tests of \<open>reverse(number.Order)\<close> fix it.
\<close>

definition numberOrder :: "int Order" where
  "numberOrder = \<lparr> compare = (\<lambda>that self. if self < that then -1 else if self > that then 1 else 0) \<rparr>"

text \<open>
  Modelled from the spec: \<open>contramap\<close> of typeclass/Order (not among the sources):
  \<open>compare(that)(self) := O.compare(f(that))(f(self))\<close>.
\<close>

definition contramap_Order :: "('b \<Rightarrow> 'a) \<Rightarrow> 'a Order \<Rightarrow> 'b Order" where
  "contramap_Order f O' = \<lparr> compare = (\<lambda>that self. compare O' (f that) (f self)) \<rparr>"

text \<open>
  Modelled from the spec: \<open>string.Semigroup\<close> of the test fixtures (test/data/string is
  not among the sources): \<open>combine(that)(self)\<close> is the concatenation \<open>self + that\<close>, as
  the tests fix it (\<open>"a"\<close> combined with \<open>"b"\<close> is \<open>"ab"\<close>).
\<close>

definition stringSemigroup :: "string Semigroup" where
  "stringSemigroup = fromCombine (\<lambda>that self. self @ that)"

text \<open>
  Modelled from the spec: \<open>string.Semigroup\<close> of the test fixtures as it acts on a field of
  a struct or a position of a tuple: \<open>self + that\<close>, the concatenation of two strings. The
  fixture is typed; what JavaScript's \<open>+\<close> does with operands of other types is left out
  (\<open>Undefined\<close> here).
\<close>

definition stringSemigroup_js :: "jsval Semigroup" where
  "stringSemigroup_js =
     fromCombine (\<lambda>that self. case (self, that) of (Str a, Str b) \<Rightarrow> Str (a @ b) | _ \<Rightarrow> Undefined)"

text \<open>
  Modelled from the spec: \<open>number.SemigroupSum\<close> of the test fixtures (test/data/number is
  not among the sources) on a field or a position: \<open>self + that\<close>, the sum of two numbers;
  operands of other types are left out as above.
\<close>

definition numberSumSemigroup_js :: "jsval Semigroup" where
  "numberSumSemigroup_js =
     fromCombine (\<lambda>that self. case (self, that) of (Num a, Num b) \<Rightarrow> Num (a + b) | _ \<Rightarrow> Undefined)"

text \<open>
  An instance as a caller may write one by hand: \<open>combine\<close> adds, and is associative, but
  \<open>combineMany\<close> subtracts the elements from the seed and so is not the fold of \<open>combine\<close>.
\<close>

definition incoherentSemigroup :: "int Semigroup" where
  "incoherentSemigroup =
     \<lparr> combine = (\<lambda>that self. self + that),
       combineMany = (\<lambda>collection self. self - sum_list collection) \<rparr>"

text \<open>
  A \<open>from\<close> that reads the index when it is given one, as
  \<open>(b: number, i?: number) => i === undefined ? b : b + i\<close> does.
\<close>

definition indexReadingFrom :: "int \<Rightarrow> (nat \<times> int list) option \<Rightarrow> int" where
  "indexReadingFrom b extra = (case extra of None \<Rightarrow> b | Some (i, _) \<Rightarrow> b + int i)"

section \<open>The loop of fromCombine is the left fold\<close>

lemma fromCombine_loop_leftFold: "fromCombine_loop c xs s = leftFold c xs s"
  by (induction xs arbitrary: s) (simp_all add: leftFold_def)

lemma combine_fromCombine: "combine (fromCombine c) = c"
  by (simp add: fromCombine_def)

lemma combineMany_fromCombine: "combineMany (fromCombine c) xs s = leftFold c xs s"
  by (simp add: fromCombine_def fromCombine_loop_leftFold)


lemma last_loop_eq: "last_loop xs s = (if xs = [] then s else last xs)"
  by (induction xs arbitrary: s) auto


lemma leftFold_constant: "leftFold (\<lambda>_ _. a) xs s = (if xs = [] then s else a)"
  by (induction xs arbitrary: s) (simp_all add: leftFold_def)

lemma stringSemigroup_lawful: "associative (combine stringSemigroup) \<and> coherent stringSemigroup"
  by (simp add: associative_def coherent_def stringSemigroup_def combine_fromCombine
      combineMany_fromCombine)

subsection \<open>reverse\<close>

text \<open>
  With \<open>x <> y\<close> for \<open>combine(y)(x)\<close>: \<open>reverse\<close> computes \<open>((d <> c) <> b) <> s\<close>, the left
  fold of the flipped \<open>combine\<close> is \<open>d <> (c <> (b <> s))\<close>. Associativity moves the seed
  through, one element at a time.
\<close>

lemma reverse_fold_aux:
  assumes "associative c"
  shows "c s (leftFold c (rev ys) y) = c (leftFold (\<lambda>a out. c out a) ys s) y"
  using assms
proof (induction ys arbitrary: s)
  case Nil
  then show ?case by (simp add: leftFold_def)
next
  case (Cons z zs)
  have "c s (leftFold c (rev (z # zs)) y) = c s (c z (leftFold c (rev zs) y))"
    by (simp add: leftFold_def)
  also have "\<dots> = c (c s z) (leftFold c (rev zs) y)"
    using Cons.prems by (simp add: associative_def)
  also have "\<dots> = c (leftFold (\<lambda>a out. c out a) zs (c s z)) y"
    using Cons.IH [OF Cons.prems] .
  finally show ?case by (simp add: leftFold_def)
qed

lemma combineMany_reverse:
  assumes "associative (combine S)" "coherent S"
  shows "combineMany (reverse S) xs s = leftFold (combine (reverse S)) xs s"
proof (cases xs rule: rev_cases)
  case Nil
  then show ?thesis by (simp add: reverse_def leftFold_def)
next
  case (snoc ys y)
  have "combineMany (reverse S) xs s = combine S s (leftFold (combine S) (rev ys) y)"
    using assms(2) snoc by (simp add: reverse_def coherent_def)
  also have "\<dots> = combine S (leftFold (\<lambda>a out. combine S out a) ys s) y"
    using reverse_fold_aux [OF assms(1)] .
  also have "\<dots> = leftFold (combine (reverse S)) xs s"
    using snoc by (simp add: reverse_def leftFold_def)
  finally show ?thesis .
qed

subsection \<open>imap\<close>




section \<open>combineMany and the left fold of combine\<close>




text \<open>
  The hypotheses on \<open>reverse\<close> and \<open>imap\<close> are needed: \<open>reverse\<close> of a \<open>combine\<close> that is
  not associative (subtraction), \<open>imap\<close> along functions that are not inverse to each
  other, and \<open>imap\<close> with a \<open>from\<close> that reads the index that \<open>map\<close> passes, do not give
  the left fold.
\<close>

lemma reverse_needs_associative:
  "combineMany (reverse (fromCombine (\<lambda>that self. self - that))) [1, 2, 3] (0 :: int) = 0
   \<and> leftFold (combine (reverse (fromCombine (\<lambda>that self. self - that)))) [1, 2, 3] (0 :: int) = 2"
  by (simp add: leftFold_def reverse_def fromCombine_def)

lemma imap_needs_inverse:
  "combineMany (imap_Semigroup (\<lambda>s. s @ ''!'') (\<lambda>b _. b) stringSemigroup) [] ''a'' = ''a!''
   \<and> leftFold (combine (imap_Semigroup (\<lambda>s. s @ ''!'') (\<lambda>b _. b) stringSemigroup)) [] ''a'' = ''a''"
  by (simp add: leftFold_def imap_Semigroup_def stringSemigroup_def fromCombine_def)

lemma imap_needs_unary_from:
  "combineMany (imap_Semigroup id indexReadingFrom (fromCombine (\<lambda>that self. self + that)))
     [10, 10, 10] 10 = 43
   \<and> leftFold (combine (imap_Semigroup id indexReadingFrom (fromCombine (\<lambda>that self. self + that))))
     [10, 10, 10] 10 = 40"
  by (simp add: leftFold_def imap_Semigroup_def indexReadingFrom_def fromCombine_def)

section \<open>Semigroup: min and max\<close>

text \<open>
  C2 (as amended). On a tie (\<open>O.compare(that)(self) == 0\<close>) both \<open>max(O).combine(that)(self)\<close>
  and \<open>min(O).combine(that)(self)\<close> return \<open>that\<close>, the later operand. On \<open>-1\<close>
  (\<open>self\<close> is the smaller) \<open>min\<close> returns \<open>self\<close> and \<open>max\<close> returns \<open>that\<close>; on \<open>1\<close>
  (\<open>self\<close> is the larger) \<open>min\<close> returns \<open>that\<close> and \<open>max\<close> returns \<open>self\<close>.
\<close>

theorem min_max_choice:
  "(compare O' that self = 0 \<longrightarrow>
      combine (max_Semigroup O') that self = that \<and> combine (min_Semigroup O') that self = that)
   \<and> (compare O' that self = -1 \<longrightarrow>
      combine (min_Semigroup O') that self = self \<and> combine (max_Semigroup O') that self = that)
   \<and> (compare O' that self = 1 \<longrightarrow>
      combine (min_Semigroup O') that self = that \<and> combine (max_Semigroup O') that self = self)"
  by (simp add: min_Semigroup_def max_Semigroup_def combine_fromCombine)

theorem min_max_choice_witness:
  "compare (contramap_Order fst numberOrder) (1, ''second'') (1::int, ''first'') = 0
   \<and> combine (max_Semigroup (contramap_Order fst numberOrder)) (1, ''second'') (1, ''first'') = (1, ''second'')
   \<and> combine (min_Semigroup (contramap_Order fst numberOrder)) (1, ''second'') (1, ''first'') = (1, ''second'')
   \<and> compare numberOrder 2 1 = -1
   \<and> combine (min_Semigroup numberOrder) 2 1 = 1
   \<and> combine (max_Semigroup numberOrder) 2 1 = 2
   \<and> compare numberOrder 1 2 = 1
   \<and> combine (min_Semigroup numberOrder) 1 2 = 1
   \<and> combine (max_Semigroup numberOrder) 1 2 = 2"
  using min_max_choice [of "contramap_Order fst numberOrder" "(1, ''second'')" "(1, ''first'')"]
    min_max_choice [of numberOrder 2 1] min_max_choice [of numberOrder 1 2]
  by (simp add: contramap_Order_def numberOrder_def)

text \<open>
  The claim as it was stated fails for \<open>min\<close>: two items tie under the order by their
  number, and \<open>min\<close> returns \<open>that\<close>, not \<open>self\<close>.
\<close>

theorem min_tie_counterexample:
  "compare (contramap_Order fst numberOrder) (1, ''second'') (1::int, ''first'') = 0
   \<and> combine (min_Semigroup (contramap_Order fst numberOrder)) (1, ''second'') (1, ''first'')
        \<noteq> (1, ''first'')"
  by (simp add: contramap_Order_def numberOrder_def min_Semigroup_def combine_fromCombine)

section \<open>Semigroup: reverse\<close>

text \<open>
  C4. \<open>reverse(S).combine(that)(self)\<close> is \<open>S.combine(self)(that)\<close>. When \<open>combine\<close> of
  \<open>S\<close> is associative and \<open>combineMany\<close> of \<open>S\<close> is its left fold,
  \<open>reverse(S).combineMany(xs)(s)\<close> is the left fold of the flipped \<open>combine\<close> across \<open>xs\<close>
  from \<open>s\<close>. \<open>reverse(stringSemigroup).combineMany(["b","c","d"])("a")\<close> is \<open>"dcba"\<close>.
\<close>

theorem reverse_flips_combine:
  "combine (reverse S) that self = combine S self that
   \<and> (associative (combine S) \<and> coherent S \<longrightarrow>
        combineMany (reverse S) xs s = leftFold (\<lambda>that self. combine S self that) xs s)
   \<and> combineMany (reverse stringSemigroup) [''b'', ''c'', ''d''] ''a'' = ''dcba''"
proof (intro conjI impI)
  show "combine (reverse S) that self = combine S self that"
    by (simp add: reverse_def)
next
  assume "associative (combine S) \<and> coherent S"
  then have "combineMany (reverse S) xs s = leftFold (combine (reverse S)) xs s"
    by (simp add: combineMany_reverse)
  then show "combineMany (reverse S) xs s = leftFold (\<lambda>that self. combine S self that) xs s"
    by (simp add: reverse_def)
next
  show "combineMany (reverse stringSemigroup) [''b'', ''c'', ''d''] ''a'' = ''dcba''"
    by (simp add: reverse_def stringSemigroup_def fromCombine_def)
qed

theorem reverse_flips_combine_witness:
  "combineMany (reverse stringSemigroup) [''b'', ''c''] ''a''
     = leftFold (\<lambda>that self. combine stringSemigroup self that) [''b'', ''c''] ''a''
   \<and> leftFold (\<lambda>that self. combine stringSemigroup self that) [''b'', ''c''] ''a'' = ''cba''"
  using reverse_flips_combine [of stringSemigroup _ _ "[''b'', ''c'']" "''a''"] stringSemigroup_lawful
  by (simp add: leftFold_def stringSemigroup_def combine_fromCombine)

section \<open>Semigroup: struct and tuple, field by field\<close>

lemma has_fields_iff: "has_fields semigroups obj \<longleftrightarrow> (\<forall>k \<in> set (map fst semigroups). obj k \<noteq> None)"
  by (simp add: has_fields_def list_all_iff)

lemma get_prop_own: "obj k = Some v \<Longrightarrow> get_prop obj k = Some v"
  by (simp add: get_prop_def)

lemma fieldwise_Some:
  "map_of semigroups k = Some S \<Longrightarrow> that k = Some b \<Longrightarrow> self k = Some a \<Longrightarrow>
     fieldwise semigroups that self k = Some (combine S b a)"
  by (simp add: fieldwise_def)

lemma fieldwise_None: "map_of semigroups k = None \<Longrightarrow> fieldwise semigroups that self k = None"
  by (simp add: fieldwise_def)

text \<open>
  The loop on objects that own the keys it visits: every visited key of \<open>semigroups\<close> but
  \<open>__proto__\<close> gets its combined value, and the other keys of \<open>r\<close> stay.
\<close>

lemma struct_loop_typed:
  assumes "\<forall>k \<in> set ks. map_of semigroups k \<noteq> None \<longrightarrow> that k \<noteq> None \<and> self k \<noteq> None"
  shows "struct_loop semigroups ks that self r =
           Some (\<lambda>k. if k \<in> set ks \<and> k \<noteq> ''__proto__'' \<and> map_of semigroups k \<noteq> None
                      then fieldwise semigroups that self k else r k)"
  using assms
proof (induction ks arbitrary: r)
  case Nil
  then show ?case by simp
next
  case (Cons k' ks)
  show ?case
  proof (cases "map_of semigroups k'")
    case None
    then show ?thesis
      using Cons by (auto intro!: ext)
  next
    case (Some S)
    then obtain b a where ba: "that k' = Some b" "self k' = Some a"
      using Cons.prems by auto
    let ?r = "set_prop r k' (combine S b a)"
    have "struct_loop semigroups (k' # ks) that self r = struct_loop semigroups ks that self ?r"
      using Some ba by (simp add: get_prop_own)
    also have "\<dots> = Some (\<lambda>k. if k \<in> set ks \<and> k \<noteq> ''__proto__'' \<and> map_of semigroups k \<noteq> None
                               then fieldwise semigroups that self k else ?r k)"
      using Cons.IH [of ?r] Cons.prems by simp
    also have "(\<lambda>k. if k \<in> set ks \<and> k \<noteq> ''__proto__'' \<and> map_of semigroups k \<noteq> None
                    then fieldwise semigroups that self k else ?r k)
             = (\<lambda>k. if k \<in> set (k' # ks) \<and> k \<noteq> ''__proto__'' \<and> map_of semigroups k \<noteq> None
                    then fieldwise semigroups that self k else r k)"
      using Some ba by (auto intro!: ext simp: set_prop_def fieldwise_Some)
    finally show ?thesis .
  qed
qed

lemma combine_struct:
  assumes "has_fields semigroups that" "has_fields semigroups self"
  shows "combine (struct semigroups) (Some that) (Some self)
           = Some ((fieldwise semigroups that self)(''__proto__'' := None))"
proof -
  have loop: "struct_loop semigroups (map fst semigroups) that self Map.empty
          = Some (\<lambda>k. if k \<in> set (map fst semigroups) \<and> k \<noteq> ''__proto__'' \<and> map_of semigroups k \<noteq> None
                      then fieldwise semigroups that self k else Map.empty k)"
    using assms unfolding has_fields_iff by (intro struct_loop_typed) blast
  have "(if k \<in> set (map fst semigroups) \<and> k \<noteq> ''__proto__'' \<and> map_of semigroups k \<noteq> None
         then fieldwise semigroups that self k else Map.empty k)
      = ((fieldwise semigroups that self)(''__proto__'' := None)) k" for k
  proof (cases "map_of semigroups k")
    case None
    then show ?thesis by (simp add: fieldwise_None)
  next
    case (Some S)
    then have "k \<in> set (map fst semigroups)"
      by (force dest: map_of_SomeD)
    with Some show ?thesis by simp
  qed
  then have eq: "(\<lambda>k. if k \<in> set (map fst semigroups) \<and> k \<noteq> ''__proto__'' \<and> map_of semigroups k \<noteq> None
                      then fieldwise semigroups that self k else Map.empty k)
           = (fieldwise semigroups that self)(''__proto__'' := None)"
    by (rule ext)
  show ?thesis
    using loop [unfolded eq] by (simp add: struct_def combine_fromCombine)
qed

text \<open>Apart from the key \<open>__proto__\<close> the result is the record that the spec describes.\<close>

lemma struct_combine_fieldwise:
  assumes "has_fields semigroups that" "has_fields semigroups self"
    and "''__proto__'' \<notin> set (map fst semigroups)"
  shows "combine (struct semigroups) (Some that) (Some self) = Some (fieldwise semigroups that self)"
proof -
  have "fieldwise semigroups that self ''__proto__'' = None"
    using assms(3) by (simp add: fieldwise_None map_of_eq_None_iff)
  then have "(fieldwise semigroups that self)(''__proto__'' := None) = fieldwise semigroups that self"
    by (auto intro!: ext)
  then show ?thesis
    using combine_struct [OF assms(1,2)] by simp
qed

lemma has_fields_fieldwise:
  assumes "has_fields semigroups that" "has_fields semigroups self"
  shows "has_fields semigroups (fieldwise semigroups that self)"
  unfolding has_fields_iff
proof
  fix k
  assume k: "k \<in> set (map fst semigroups)"
  then obtain S where "map_of semigroups k = Some S"
    by (metis map_of_eq_None_iff not_None_eq set_map)
  moreover have "that k \<noteq> None" "self k \<noteq> None"
    using assms k unfolding has_fields_iff by blast+
  then obtain b a where "that k = Some b" "self k = Some a"
    by auto
  ultimately show "fieldwise semigroups that self k \<noteq> None"
    by (simp add: fieldwise_Some)
qed

lemma struct_example:
  "combine (struct [(''name'', stringSemigroup_js), (''age'', numberSumSemigroup_js)])
     (Some (Map.empty(''name'' \<mapsto> Str ''b'', ''age'' \<mapsto> Num 20)))
     (Some (Map.empty(''name'' \<mapsto> Str ''a'', ''age'' \<mapsto> Num 10)))
   = Some (Map.empty(''name'' \<mapsto> Str ''ab'', ''age'' \<mapsto> Num 30))"
  by (simp add: struct_def combine_fromCombine get_prop_def set_prop_def stringSemigroup_js_def
      numberSumSemigroup_js_def)

lemma length_combine_tuple: "length (combine (tuple components) that self) = length components"
  by (simp add: tuple_def combine_fromCombine)

lemma nth_combine_tuple:
  "i < length components \<Longrightarrow>
     combine (tuple components) that self ! i
       = combine (components ! i) (get_index that i) (get_index self i)"
  by (simp add: tuple_def combine_fromCombine nth_enumerate_eq)

lemma get_index_combine_tuple:
  "i < length components \<Longrightarrow>
     get_index (combine (tuple components) that self) i
       = combine (components ! i) (get_index that i) (get_index self i)"
  by (simp add: get_index_def [of "combine (tuple components) that self"]
      length_combine_tuple nth_combine_tuple)

text \<open>
  C9. The spec has \<open>struct(semigroups).combine(that)(self)\<close> return, at each key \<open>k\<close> of
  \<open>semigroups\<close>, the value \<open>semigroups[k].combine(that[k])(self[k])\<close>. The code does so
  for every key but \<open>__proto__\<close> (\<open>struct_combine_fieldwise\<close>, \<open>struct_example\<close>). For
  a component keyed \<open>__proto__\<close>, with \<open>that\<close> and \<open>self\<close> owning that key, the assignment
  \<open>r[k] = ...\<close> runs the setter of \<open>Object.prototype\<close> and the result has no such key:
  \<open>{}\<close> where the spec has \<open>{"__proto__": "ab"}\<close>.
\<close>

theorem struct_proto_key_lost:
  "combine (struct [(''__proto__'', stringSemigroup_js)])
     (Some (Map.empty(''__proto__'' \<mapsto> Str ''b'')))
     (Some (Map.empty(''__proto__'' \<mapsto> Str ''a'')))
   = Some Map.empty
   \<and> fieldwise [(''__proto__'', stringSemigroup_js)]
       (Map.empty(''__proto__'' \<mapsto> Str ''b'')) (Map.empty(''__proto__'' \<mapsto> Str ''a''))
     = Map.empty(''__proto__'' \<mapsto> Str ''ab'')"
  by (auto intro!: ext simp: struct_def combine_fromCombine get_prop_def set_prop_def
      fieldwise_def stringSemigroup_js_def)

section \<open>Associativity of the constructed semigroups\<close>

lemma lawful_Order_tri:
  "lawful_Order O' \<Longrightarrow> compare O' a b = -1 \<or> compare O' a b = 0 \<or> compare O' a b = 1"
  unfolding lawful_Order_def by blast

lemma lawful_Order_skew: "lawful_Order O' \<Longrightarrow> compare O' a b = - compare O' b a"
  unfolding lawful_Order_def by blast

lemma lawful_Order_trans:
  "lawful_Order O' \<Longrightarrow> compare O' b a \<le> 0 \<Longrightarrow> compare O' c b \<le> 0 \<Longrightarrow> compare O' c a \<le> 0"
  unfolding lawful_Order_def by blast

lemma lawful_Order_less_trans:
  assumes "lawful_Order O'" "compare O' a b = -1" "compare O' b c = -1"
  shows "compare O' a c = -1"
proof (rule ccontr)
  assume "compare O' a c \<noteq> -1"
  then have "compare O' a c \<ge> 0"
    using lawful_Order_tri [OF assms(1), of a c] by auto
  then have "compare O' c a \<le> 0"
    using lawful_Order_skew [OF assms(1), of c a] by simp
  moreover have "compare O' a b \<le> 0"
    using assms(2) by simp
  ultimately have "compare O' c b \<le> 0"
    using lawful_Order_trans [OF assms(1), where a = b and b = a and c = c] by simp
  then show False
    using lawful_Order_skew [OF assms(1), of b c] assms(3) by simp
qed

lemma lawful_Order_greater_trans:
  assumes "lawful_Order O'" "compare O' a b = 1" "compare O' b c = 1"
  shows "compare O' a c = 1"
proof -
  have "compare O' c b = -1" "compare O' b a = -1"
    using lawful_Order_skew [OF assms(1), of c b] lawful_Order_skew [OF assms(1), of b a] assms(2,3)
    by simp_all
  then have "compare O' c a = -1"
    using lawful_Order_less_trans [OF assms(1), where a = c and b = b and c = a] by simp
  then show ?thesis
    using lawful_Order_skew [OF assms(1), of a c] by simp
qed

lemma lawful_Order_not_less_trans:
  assumes "lawful_Order O'" "compare O' a b \<noteq> -1" "compare O' b c \<noteq> -1"
  shows "compare O' a c \<noteq> -1"
proof -
  have "compare O' b a \<le> 0" "compare O' c b \<le> 0"
    using lawful_Order_tri [OF assms(1), of a b] lawful_Order_tri [OF assms(1), of b c]
      lawful_Order_skew [OF assms(1), of b a] lawful_Order_skew [OF assms(1), of c b] assms(2,3)
    by auto
  then have "compare O' c a \<le> 0"
    using lawful_Order_trans [OF assms(1), where a = a and b = b and c = c] by simp
  then show ?thesis
    using lawful_Order_skew [OF assms(1), of a c] by simp
qed

lemma lawful_Order_not_greater_trans:
  assumes "lawful_Order O'" "compare O' a b \<noteq> 1" "compare O' b c \<noteq> 1"
  shows "compare O' a c \<noteq> 1"
proof -
  have "compare O' a b \<le> 0" "compare O' b c \<le> 0"
    using lawful_Order_tri [OF assms(1), of a b] lawful_Order_tri [OF assms(1), of b c] assms(2,3)
    by auto
  then have "compare O' a c \<le> 0"
    using lawful_Order_trans [OF assms(1), where a = c and b = b and c = a] by simp
  then show ?thesis by simp
qed

text \<open>\<open>min\<close> keeps the rightmost of the smallest operands, whichever way three are grouped.\<close>

lemma min_associative:
  assumes "lawful_Order O'"
  shows "associative (combine (min_Semigroup O'))"
proof -
  have "(if compare O' (if compare O' x y = -1 then y else x) z = -1 then z
         else (if compare O' x y = -1 then y else x))
      = (if compare O' x (if compare O' y z = -1 then z else y) = -1
         then (if compare O' y z = -1 then z else y) else x)" for x y z
  proof (cases "compare O' x y = -1"; cases "compare O' y z = -1")
    assume "compare O' x y = -1" "compare O' y z = -1"
    then show ?thesis
      using lawful_Order_less_trans [OF assms, of x y z] by simp
  next
    assume "compare O' x y \<noteq> -1" "compare O' y z \<noteq> -1"
    then show ?thesis
      using lawful_Order_not_less_trans [OF assms, of x y z] by simp
  qed simp_all
  then show ?thesis
    by (simp add: associative_def min_Semigroup_def combine_fromCombine)
qed

lemma max_associative:
  assumes "lawful_Order O'"
  shows "associative (combine (max_Semigroup O'))"
proof -
  have "(if compare O' (if compare O' x y = 1 then y else x) z = 1 then z
         else (if compare O' x y = 1 then y else x))
      = (if compare O' x (if compare O' y z = 1 then z else y) = 1
         then (if compare O' y z = 1 then z else y) else x)" for x y z
  proof (cases "compare O' x y = 1"; cases "compare O' y z = 1")
    assume "compare O' x y = 1" "compare O' y z = 1"
    then show ?thesis
      using lawful_Order_greater_trans [OF assms, of x y z] by simp
  next
    assume "compare O' x y \<noteq> 1" "compare O' y z \<noteq> 1"
    then show ?thesis
      using lawful_Order_not_greater_trans [OF assms, of x y z] by simp
  qed simp_all
  then show ?thesis
    by (simp add: associative_def max_Semigroup_def combine_fromCombine)
qed

lemma struct_associative:
  assumes "\<forall>C \<in> set (map snd semigroups). associative (combine C)"
    and "''__proto__'' \<notin> set (map fst semigroups)"
    and "has_fields semigroups x" "has_fields semigroups y" "has_fields semigroups z"
  shows "combine (struct semigroups) (combine (struct semigroups) (Some x) (Some y)) (Some z)
           = Some (fieldwise semigroups x (fieldwise semigroups y z))"
    and "combine (struct semigroups) (Some x) (combine (struct semigroups) (Some y) (Some z))
           = Some (fieldwise semigroups x (fieldwise semigroups y z))"
proof -
  have "fieldwise semigroups (fieldwise semigroups x y) z k
          = fieldwise semigroups x (fieldwise semigroups y z) k" for k
  proof (cases "map_of semigroups k")
    case None
    then show ?thesis by (simp add: fieldwise_None)
  next
    case (Some S)
    then have "S \<in> set (map snd semigroups)" "k \<in> set (map fst semigroups)"
      by (force dest: map_of_SomeD)+
    then have S: "associative (combine S)"
      and "x k \<noteq> None" "y k \<noteq> None" "z k \<noteq> None"
      using assms unfolding has_fields_iff by blast+
    then obtain a b c where "x k = Some a" "y k = Some b" "z k = Some c"
      by auto
    then show ?thesis
      using Some S by (simp add: fieldwise_def associative_def)
  qed
  then have eq: "fieldwise semigroups (fieldwise semigroups x y) z
                   = fieldwise semigroups x (fieldwise semigroups y z)"
    by (rule ext)
  have "combine (struct semigroups) (combine (struct semigroups) (Some x) (Some y)) (Some z)
          = combine (struct semigroups) (Some (fieldwise semigroups x y)) (Some z)"
    by (simp only: struct_combine_fieldwise [OF assms(3,4,2)])
  also have "\<dots> = Some (fieldwise semigroups (fieldwise semigroups x y) z)"
    by (rule struct_combine_fieldwise [OF has_fields_fieldwise [OF assms(3,4)] assms(5,2)])
  finally show "combine (struct semigroups) (combine (struct semigroups) (Some x) (Some y)) (Some z)
                  = Some (fieldwise semigroups x (fieldwise semigroups y z))"
    by (simp add: eq)
  have "combine (struct semigroups) (Some x) (combine (struct semigroups) (Some y) (Some z))
          = combine (struct semigroups) (Some x) (Some (fieldwise semigroups y z))"
    by (simp only: struct_combine_fieldwise [OF assms(4,5,2)])
  also have "\<dots> = Some (fieldwise semigroups x (fieldwise semigroups y z))"
    by (rule struct_combine_fieldwise [OF assms(3) has_fields_fieldwise [OF assms(4,5)] assms(2)])
  finally show "combine (struct semigroups) (Some x) (combine (struct semigroups) (Some y) (Some z))
                  = Some (fieldwise semigroups x (fieldwise semigroups y z))" .
qed

lemma tuple_associative:
  assumes "\<forall>S \<in> set components. associative (combine S)"
  shows "associative (combine (tuple components))"
  unfolding associative_def
proof (intro allI nth_equalityI)
  fix x y z
  show "length (combine (tuple components) (combine (tuple components) x y) z)
          = length (combine (tuple components) x (combine (tuple components) y z))"
    by (simp add: length_combine_tuple)
  fix i
  assume "i < length (combine (tuple components) (combine (tuple components) x y) z)"
  then have i: "i < length components"
    by (simp add: length_combine_tuple)
  then have "associative (combine (components ! i))"
    using assms by simp
  then show "combine (tuple components) (combine (tuple components) x y) z ! i
          = combine (tuple components) x (combine (tuple components) y z) ! i"
    using i by (simp add: nth_combine_tuple get_index_combine_tuple associative_def)
qed

lemma reverse_associative:
  assumes "associative (combine S)"
  shows "associative (combine (reverse S))"
  using assms by (simp add: associative_def reverse_def)

text \<open>
  \<open>intercalate\<close> combines as \<open>self <> separator <> that\<close>, once \<open>combineMany\<close> of \<open>S\<close> on
  the two elements \<open>[separator, that]\<close> is the fold of its \<open>combine\<close>.
\<close>

lemma intercalate_associative:
  assumes "associative (combine S)"
    and "\<forall>that self. combineMany S [separator, that] self = combine S that (combine S separator self)"
  shows "associative (combine (intercalate separator S))"
proof -
  have "combine (intercalate separator S) that self
          = combine S that (combine S separator self)" for that self
    using assms(2) by (simp add: intercalate_def combine_fromCombine)
  then show ?thesis
    using assms(1) by (simp add: associative_def)
qed

lemma imap_associative:
  assumes "associative (combine S)" "\<forall>x. from (to x) None = x"
  shows "associative (combine (imap_Semigroup to from S))"
  using assms by (simp add: associative_def imap_Semigroup_def)

lemma incoherentSemigroup_associative: "associative (combine incoherentSemigroup)"
  by (simp add: associative_def incoherentSemigroup_def)

lemma numberOrder_lawful: "lawful_Order numberOrder"
  by (simp add: lawful_Order_def numberOrder_def)

lemma stringSemigroup_js_associative: "associative (combine stringSemigroup_js)"
  by (auto simp: associative_def stringSemigroup_js_def combine_fromCombine split: jsval.splits)

lemma numberSumSemigroup_js_associative: "associative (combine numberSumSemigroup_js)"
  by (auto simp: associative_def numberSumSemigroup_js_def combine_fromCombine split: jsval.splits)

text \<open>
  C3 (as amended). The semigroups that the constructors build from lawful inputs have an
  associative \<open>combine\<close>, \<open>combine(combine(a)(b))(c) == combine(a)(combine(b)(c))\<close>:
  \<open>min\<close> and \<open>max\<close> of a lawful order; \<open>struct\<close> of components with associative
  \<open>combine\<close>, none of them keyed \<open>__proto__\<close>, on the values that own the keys of the
  struct; \<open>tuple\<close> of components with associative \<open>combine\<close>; \<open>reverse\<close> of a semigroup
  with associative \<open>combine\<close>; \<open>intercalate\<close> of a semigroup with associative \<open>combine\<close>
  whose \<open>combineMany([separator, that])(self)\<close> is
  \<open>combine(that)(combine(separator)(self))\<close>, the fold of its \<open>combine\<close>; \<open>imap\<close> along
  \<open>to\<close> and \<open>from\<close> with \<open>from(to(x)) == x\<close>; and \<open>constant\<close>, \<open>first\<close>, \<open>last\<close> with no
  hypothesis.
\<close>

theorem constructed_combine_associative:
  "(lawful_Order O' \<longrightarrow>
      associative (combine (min_Semigroup O')) \<and> associative (combine (max_Semigroup O')))
   \<and> ((\<forall>C \<in> set (map snd semigroups). associative (combine C))
        \<and> ''__proto__'' \<notin> set (map fst semigroups)
        \<and> has_fields semigroups x \<and> has_fields semigroups y \<and> has_fields semigroups z \<longrightarrow>
        combine (struct semigroups) (combine (struct semigroups) (Some x) (Some y)) (Some z)
          = combine (struct semigroups) (Some x) (combine (struct semigroups) (Some y) (Some z))
        \<and> combine (struct semigroups) (Some x) (combine (struct semigroups) (Some y) (Some z))
          = Some (fieldwise semigroups x (fieldwise semigroups y z)))
   \<and> ((\<forall>C \<in> set components. associative (combine C)) \<longrightarrow>
        associative (combine (tuple components)))
   \<and> (associative (combine S) \<longrightarrow> associative (combine (reverse S)))
   \<and> (associative (combine S)
        \<and> (\<forall>that self. combineMany S [separator, that] self
                            = combine S that (combine S separator self)) \<longrightarrow>
        associative (combine (intercalate separator S)))
   \<and> (associative (combine S) \<and> (\<forall>x. from' (to x) None = x) \<longrightarrow>
        associative (combine (imap_Semigroup to from' S)))
   \<and> associative (combine (constant_Semigroup (a :: 'c)))
   \<and> associative (combine (first :: 'c Semigroup))
   \<and> associative (combine (last_Semigroup :: 'c Semigroup))"
proof (intro conjI impI)
  show "associative (combine (min_Semigroup O'))" if "lawful_Order O'"
    using that by (rule min_associative)
  show "associative (combine (max_Semigroup O'))" if "lawful_Order O'"
    using that by (rule max_associative)
  show "combine (struct semigroups) (combine (struct semigroups) (Some x) (Some y)) (Some z)
          = combine (struct semigroups) (Some x) (combine (struct semigroups) (Some y) (Some z))"
    if "(\<forall>C \<in> set (map snd semigroups). associative (combine C))
        \<and> ''__proto__'' \<notin> set (map fst semigroups)
        \<and> has_fields semigroups x \<and> has_fields semigroups y \<and> has_fields semigroups z"
    using struct_associative [of semigroups x y z] that by simp
  show "combine (struct semigroups) (Some x) (combine (struct semigroups) (Some y) (Some z))
          = Some (fieldwise semigroups x (fieldwise semigroups y z))"
    if "(\<forall>C \<in> set (map snd semigroups). associative (combine C))
        \<and> ''__proto__'' \<notin> set (map fst semigroups)
        \<and> has_fields semigroups x \<and> has_fields semigroups y \<and> has_fields semigroups z"
    using struct_associative [of semigroups x y z] that by simp
  show "associative (combine (tuple components))"
    if "\<forall>C \<in> set components. associative (combine C)"
    using that by (rule tuple_associative)
  show "associative (combine (reverse S))" if "associative (combine S)"
    using that by (rule reverse_associative)
  show "associative (combine (intercalate separator S))"
    if "associative (combine S)
        \<and> (\<forall>that self. combineMany S [separator, that] self
                            = combine S that (combine S separator self))"
    using that by (simp add: intercalate_associative)
  show "associative (combine (imap_Semigroup to from' S))"
    if "associative (combine S) \<and> (\<forall>x. from' (to x) None = x)"
    using that by (simp add: imap_associative)
  show "associative (combine (constant_Semigroup a))"
    by (simp add: associative_def constant_Semigroup_def)
  show "associative (combine (first :: 'c Semigroup))"
    by (simp add: associative_def first_def)
  show "associative (combine (last_Semigroup :: 'c Semigroup))"
    by (simp add: associative_def last_Semigroup_def)
qed

theorem constructed_combine_associative_witness:
  "associative (combine (min_Semigroup numberOrder))
   \<and> associative (combine (max_Semigroup numberOrder))
   \<and> combine (struct [(''name'', stringSemigroup_js), (''age'', numberSumSemigroup_js)])
       (combine (struct [(''name'', stringSemigroup_js), (''age'', numberSumSemigroup_js)])
          (Some (Map.empty(''name'' \<mapsto> Str ''c'', ''age'' \<mapsto> Num 3)))
          (Some (Map.empty(''name'' \<mapsto> Str ''b'', ''age'' \<mapsto> Num 2))))
       (Some (Map.empty(''name'' \<mapsto> Str ''a'', ''age'' \<mapsto> Num 1)))
     = combine (struct [(''name'', stringSemigroup_js), (''age'', numberSumSemigroup_js)])
         (Some (Map.empty(''name'' \<mapsto> Str ''c'', ''age'' \<mapsto> Num 3)))
         (combine (struct [(''name'', stringSemigroup_js), (''age'', numberSumSemigroup_js)])
            (Some (Map.empty(''name'' \<mapsto> Str ''b'', ''age'' \<mapsto> Num 2)))
            (Some (Map.empty(''name'' \<mapsto> Str ''a'', ''age'' \<mapsto> Num 1))))
   \<and> associative (combine (tuple [stringSemigroup_js, numberSumSemigroup_js]))
   \<and> associative (combine (reverse stringSemigroup))
   \<and> associative (combine (intercalate ''|'' stringSemigroup))
   \<and> associative (combine (imap_Semigroup rev (\<lambda>b _. rev b) stringSemigroup))
   \<and> associative (combine (constant_Semigroup ''-''))
   \<and> associative (combine (first :: string Semigroup))
   \<and> associative (combine (last_Semigroup :: string Semigroup))"
proof -
  have fields: "(\<forall>C \<in> set (map snd [(''name'', stringSemigroup_js), (''age'', numberSumSemigroup_js)]).
                  associative (combine C))
      \<and> ''__proto__'' \<notin> set (map fst [(''name'', stringSemigroup_js), (''age'', numberSumSemigroup_js)])
      \<and> has_fields [(''name'', stringSemigroup_js), (''age'', numberSumSemigroup_js)]
           (Map.empty(''name'' \<mapsto> Str ''c'', ''age'' \<mapsto> Num 3))
      \<and> has_fields [(''name'', stringSemigroup_js), (''age'', numberSumSemigroup_js)]
           (Map.empty(''name'' \<mapsto> Str ''b'', ''age'' \<mapsto> Num 2))
      \<and> has_fields [(''name'', stringSemigroup_js), (''age'', numberSumSemigroup_js)]
           (Map.empty(''name'' \<mapsto> Str ''a'', ''age'' \<mapsto> Num 1))"
    by (simp add: stringSemigroup_js_associative numberSumSemigroup_js_associative has_fields_def)
  have positions: "\<forall>C \<in> set [stringSemigroup_js, numberSumSemigroup_js]. associative (combine C)"
    by (simp add: stringSemigroup_js_associative numberSumSemigroup_js_associative)
  have inverse: "\<forall>x :: string. (\<lambda>b _. rev b) (rev x) (None :: (nat \<times> string list) option) = x"
    by simp
  have folds: "\<forall>that self. combineMany stringSemigroup [''|'', that] self
                 = combine stringSemigroup that (combine stringSemigroup ''|'' self)"
    by (simp add: stringSemigroup_def fromCombine_def)
  have lawful: "associative (combine stringSemigroup)"
    using stringSemigroup_lawful by simp
  show ?thesis
    using constructed_combine_associative
        [where O' = numberOrder
          and semigroups = "[(''name'', stringSemigroup_js), (''age'', numberSumSemigroup_js)]"
          and x = "Map.empty(''name'' \<mapsto> Str ''c'', ''age'' \<mapsto> Num 3)"
          and y = "Map.empty(''name'' \<mapsto> Str ''b'', ''age'' \<mapsto> Num 2)"
          and z = "Map.empty(''name'' \<mapsto> Str ''a'', ''age'' \<mapsto> Num 1)"
          and components = "[stringSemigroup_js, numberSumSemigroup_js]"
          and S = stringSemigroup and separator = "''|''" and to = rev and from' = "\<lambda>b _. rev b"
          and a = "''-''"]
      numberOrder_lawful fields positions lawful inverse folds
    by blast
qed

text \<open>
  The claim as it was stated fails for \<open>intercalate\<close>: the hand-written instance has an
  associative \<open>combine\<close>, and \<open>intercalate(1)\<close> of it, which combines through its
  \<open>combineMany\<close>, is not associative at \<open>0\<close>, \<open>0\<close>, \<open>0\<close>.
\<close>

theorem intercalate_associative_counterexample:
  "associative (combine incoherentSemigroup)
   \<and> combine (intercalate 1 incoherentSemigroup)
        (combine (intercalate 1 incoherentSemigroup) 0 0) 0 = 0
   \<and> combine (intercalate 1 incoherentSemigroup) 0
        (combine (intercalate 1 incoherentSemigroup) 0 0) = - 2
   \<and> \<not> associative (combine (intercalate 1 incoherentSemigroup))"
proof (intro conjI)
  show "associative (combine incoherentSemigroup)"
    by (rule incoherentSemigroup_associative)
  show left: "combine (intercalate 1 incoherentSemigroup)
          (combine (intercalate 1 incoherentSemigroup) 0 0) 0 = 0"
    by (simp add: intercalate_def combine_fromCombine incoherentSemigroup_def)
  show right: "combine (intercalate 1 incoherentSemigroup) 0
          (combine (intercalate 1 incoherentSemigroup) 0 0) = - 2"
    by (simp add: intercalate_def combine_fromCombine incoherentSemigroup_def)
  show "\<not> associative (combine (intercalate 1 incoherentSemigroup))"
  proof
    assume "associative (combine (intercalate 1 incoherentSemigroup))"
    then have "combine (intercalate 1 incoherentSemigroup)
                 (combine (intercalate 1 incoherentSemigroup) 0 0) 0
               = combine (intercalate 1 incoherentSemigroup) 0
                 (combine (intercalate 1 incoherentSemigroup) 0 0)"
      unfolding associative_def by blast
    with left right show False by simp
  qed
qed

section \<open>Semigroup: last\<close>

text \<open>
  C5. For \<open>last\<close>, \<open>combine(that)(self)\<close> is \<open>that\<close>; \<open>combineMany(xs)(s)\<close> is the final
  element of \<open>xs\<close> when \<open>xs\<close> is not empty, and \<open>s\<close> when it is.
\<close>

theorem last_returns_final_element:
  "combine last_Semigroup that self = that
   \<and> combineMany last_Semigroup [] s = s
   \<and> combineMany last_Semigroup (ys @ [y]) s = y"
  by (simp add: last_Semigroup_def last_loop_eq)

section \<open>Covariant: mapComposition\<close>

lemma functor_laws_id: "functor_laws m \<Longrightarrow> m id = id"
  by (auto simp: functor_laws_def)

lemma functor_laws_comp: "functor_laws m \<Longrightarrow> m (g \<circ> f) = m g \<circ> m f"
  by (auto simp: functor_laws_def)

text \<open>
  C6. If the \<open>map\<close> of \<open>F\<close> and the \<open>map\<close> of \<open>G\<close> each satisfy the identity law and the
  composition law, so does \<open>mapComposition(F, G)\<close>: \<open>mapComposition(F, G)(identity)(x)\<close> is
  \<open>x\<close>, and \<open>mapComposition(F, G)(g \<circ> f)(x)\<close> is
  \<open>mapComposition(F, G)(g)(mapComposition(F, G)(f)(x))\<close>.
\<close>

theorem mapComposition_functor_laws:
  assumes "functor_laws (map_Covariant F)" "functor_laws (map_Covariant G)"
  shows "mapComposition F G id x = x
         \<and> mapComposition F G (g \<circ> f) x = mapComposition F G g (mapComposition F G f x)"
proof
  show "mapComposition F G id x = x"
    by (simp add: mapComposition_def functor_laws_id [OF assms(2)] functor_laws_id [OF assms(1)])
  have "map_Covariant F (map_Covariant G (g \<circ> f))
          = map_Covariant F (map_Covariant G g) \<circ> map_Covariant F (map_Covariant G f)"
    by (simp add: functor_laws_comp [OF assms(2)] functor_laws_comp [OF assms(1)])
  then show "mapComposition F G (g \<circ> f) x = mapComposition F G g (mapComposition F G f x)"
    by (simp add: mapComposition_def)
qed

theorem mapComposition_functor_laws_witness:
  "mapComposition (make (\<lambda>f. f)) (make (\<lambda>f. f)) id (3 :: int) = 3
   \<and> mapComposition (make (\<lambda>f. f)) (make (\<lambda>f. f)) ((\<lambda>n. 2 * n) \<circ> (\<lambda>n. n + 1)) (3 :: int)
       = mapComposition (make (\<lambda>f. f)) (make (\<lambda>f. f)) (\<lambda>n. 2 * n)
           (mapComposition (make (\<lambda>f. f)) (make (\<lambda>f. f)) (\<lambda>n. n + 1) 3)
   \<and> mapComposition (make (\<lambda>f. f)) (make (\<lambda>f. f)) ((\<lambda>n. 2 * n) \<circ> (\<lambda>n. n + 1)) (3 :: int) = 8"
proof -
  have laws: "functor_laws (map_Covariant (make (\<lambda>f :: int \<Rightarrow> int. f)))"
    by (simp add: functor_laws_def make_def)
  show ?thesis
    using mapComposition_functor_laws [OF laws laws, of 3 "\<lambda>n. 2 * n" "\<lambda>n. n + 1"]
    by (simp add: mapComposition_def make_def)
qed

section \<open>Covariant: make\<close>

text \<open>
  C7. The \<open>imap\<close> that \<open>make(map)\<close> derives discards its second argument: whatever the
  functions \<open>from1\<close> and \<open>from2\<close>, \<open>imap(to, from1)(x)\<close> and \<open>imap(to, from2)(x)\<close> are
  both \<open>map(to)(x)\<close>.
\<close>

theorem make_imap_discards_from:
  "imap_Covariant (make m) to from1 x = imap_Covariant (make m) to from2 x
   \<and> imap_Covariant (make m) to from2 x = m to x
   \<and> map_Covariant (make m) = m"
  by (simp add: make_def imap_def)

section \<open>Product: productAll of no instances\<close>

text \<open>
  C8 (as amended). For \<open>Semigroup\<close>, \<open>productAll([])\<close> is \<open>tuple()\<close>: its \<open>combine\<close>
  returns \<open>[]\<close> on all operands; its \<open>combineMany\<close> returns \<open>[]\<close> on every collection that
  is not empty and from the seed \<open>[]\<close>, and on the empty collection it returns the seed.
  \<open>of([])\<close> is \<open>constant([])\<close>, whose \<open>combine\<close> and \<open>combineMany\<close> return \<open>[]\<close> on all
  inputs. For \<open>Predicate\<close>, \<open>productAll([])\<close> is true of every input, as \<open>of(a)\<close> is.
\<close>

theorem productAll_empty_neutral:
  "combine (productAll_Semigroup []) that self = []
   \<and> combineMany (productAll_Semigroup []) xs [] = []
   \<and> combineMany (productAll_Semigroup []) (y # ys) s = []
   \<and> combineMany (productAll_Semigroup []) [] s = s
   \<and> combine (of_Semigroup []) that self = []
   \<and> combineMany (of_Semigroup []) xs s = []
   \<and> of_Semigroup [] = constant_Semigroup []
   \<and> productAll_Predicate [] as = True
   \<and> of_Predicate a x = True"
  by (simp add: productAll_Semigroup_def tuple_def enumerate_eq_zip combine_fromCombine
      combineMany_fromCombine leftFold_constant of_Semigroup_def constant_Semigroup_def
      productAll_Predicate_def of_Predicate_def)

text \<open>
  The claim as it was stated fails: on the empty collection and the seed \<open>["s"]\<close>, an array
  as the type of \<open>productAll\<close> admits, \<open>combineMany\<close> of \<open>productAll([])\<close> returns the seed,
  where \<open>of([])\<close> returns \<open>[]\<close>.
\<close>

theorem productAll_empty_counterexample:
  "combineMany (productAll_Semigroup []) [] [Str ''s''] = [Str ''s'']
   \<and> combineMany (of_Semigroup []) [] [Str ''s''] = []
   \<and> combineMany (productAll_Semigroup []) [] [Str ''s''] \<noteq> []"
  by (simp add: productAll_Semigroup_def tuple_def combineMany_fromCombine leftFold_def
      of_Semigroup_def constant_Semigroup_def)

section \<open>Predicate: of\<close>

text \<open>
  C10. \<open>Predicate.of(a)\<close> is the predicate that is true everywhere: \<open>of(a)(x)\<close> is true for
  every lifted value \<open>a\<close> and every input \<open>x\<close>.
\<close>

theorem of_Predicate_constant_true: "of_Predicate a x = True"
  by (simp add: of_Predicate_def)

end
